theory Spec2Isabelle
  imports Complex_Main "HOL-Library.Sublist" "HOL-Library.Multiset"
begin

section \<open>Python strings\<close>

text \<open>
  A Python \<^verbatim>\<open>str\<close> is a sequence of Unicode code points, modelled as a list of natural
  numbers. The Unicode tables used by the program (\<^verbatim>\<open>str.lower\<close>, \<^verbatim>\<open>str.isspace\<close>, the
  regular-expression classes and NFKD decomposition) are written out for the code points
  below U+0100 (ASCII and Latin-1, which covers Portuguese text); the white-space table is
  complete. A code point above U+00FF is treated as a caseless symbol without decomposition,
  apart from the few that the decomposition of a Latin-1 character produces.
\<close>

type_synonym codepoint = nat
type_synonym str = "codepoint list"

definition ascii :: "string \<Rightarrow> str" where
  "ascii s = map of_char s"

definition isspace :: "codepoint \<Rightarrow> bool" where
  "isspace c \<longleftrightarrow>
     (9 \<le> c \<and> c \<le> 13) \<or> (28 \<le> c \<and> c \<le> 32) \<or> c = 133 \<or> c = 160 \<or> c = 5760 \<or>
     (8192 \<le> c \<and> c \<le> 8202) \<or> c = 8232 \<or> c = 8233 \<or> c = 8239 \<or> c = 8287 \<or> c = 12288"

definition lower_cp :: "codepoint \<Rightarrow> codepoint" where
  "lower_cp c =
     (if (65 \<le> c \<and> c \<le> 90) \<or> (192 \<le> c \<and> c \<le> 222 \<and> c \<noteq> 215) then c + 32 else c)"

definition lower :: "str \<Rightarrow> str" where
  "lower s = map lower_cp s"

definition strip :: "str \<Rightarrow> str" where
  "strip s = rev (dropWhile isspace (rev (dropWhile isspace s)))"

text \<open>\<^verbatim>\<open>t in s\<close> for two strings: \<open>t\<close> occurs in \<open>s\<close> as a contiguous substring.\<close>

fun str_in :: "str \<Rightarrow> str \<Rightarrow> bool" where
  "str_in t [] = (t = [])"
| "str_in t (c # cs) = (prefix t (c # cs) \<or> str_in t cs)"

text \<open>\<^verbatim>\<open>any(t in s for t in terms)\<close>\<close>

definition any_in :: "str list \<Rightarrow> str \<Rightarrow> bool" where
  "any_in terms s = list_ex (\<lambda>t. str_in t s) terms"

subsection \<open>Regular-expression character classes\<close>

text \<open>\<^verbatim>\<open>\d\<close>, \<^verbatim>\<open>\w\<close> (alphanumeric or underscore) and \<^verbatim>\<open>\s\<close> for \<^verbatim>\<open>str\<close> patterns.\<close>

definition is_digit :: "codepoint \<Rightarrow> bool" where
  "is_digit c \<longleftrightarrow> 48 \<le> c \<and> c \<le> 57"

definition is_word :: "codepoint \<Rightarrow> bool" where
  "is_word c \<longleftrightarrow>
     is_digit c \<or> (65 \<le> c \<and> c \<le> 90) \<or> c = 95 \<or> (97 \<le> c \<and> c \<le> 122) \<or>
     c = 170 \<or> c = 178 \<or> c = 179 \<or> c = 181 \<or> c = 185 \<or> c = 186 \<or>
     (188 \<le> c \<and> c \<le> 190) \<or> (192 \<le> c \<and> c \<le> 214) \<or> (216 \<le> c \<and> c \<le> 246) \<or>
     (248 \<le> c \<and> c \<le> 255) \<or> c = 956"

subsection \<open>unicodedata\<close>

text \<open>
  The compatibility decomposition of the Latin-1 characters. The canonical reordering of
  combining marks that NFKD also performs is not modelled: \<open>normalize_question\<close> removes
  every combining mark right afterwards.
\<close>

definition accents :: "(codepoint \<times> codepoint) list" where
  "accents = [(0, 768), (1, 769), (2, 770), (3, 771), (4, 776), (5, 778), (7, 807),
     (8, 768), (9, 769), (10, 770), (11, 776), (12, 768), (13, 769), (14, 770), (15, 776),
     (17, 771), (18, 768), (19, 769), (20, 770), (21, 771), (22, 776),
     (25, 768), (26, 769), (27, 770), (28, 776), (29, 769)]"

definition bases :: "codepoint list" where
  "bases = [65, 65, 65, 65, 65, 65, 0, 67, 69, 69, 69, 69, 73, 73, 73, 73,
            0, 78, 79, 79, 79, 79, 79, 0, 0, 85, 85, 85, 85, 89]"

definition decomposition :: "codepoint \<Rightarrow> codepoint list" where
  "decomposition c =
    (if c = 160 then [32] else if c = 168 then [32, 776] else if c = 170 then [97]
     else if c = 175 then [32, 772] else if c = 178 then [50] else if c = 179 then [51]
     else if c = 180 then [32, 769] else if c = 181 then [956] else if c = 184 then [32, 807]
     else if c = 185 then [49] else if c = 186 then [111]
     else if c = 188 then [49, 8260, 52] else if c = 189 then [49, 8260, 50]
     else if c = 190 then [51, 8260, 52]
     else if c = 255 then [121, 776]
     else if 192 \<le> c \<and> c < 224 then
       (case map_of accents (c - 192) of None \<Rightarrow> [c] | Some m \<Rightarrow> [bases ! (c - 192), m])
     else if 224 \<le> c \<and> c < 255 then
       (case map_of accents (c - 224) of None \<Rightarrow> [c] | Some m \<Rightarrow> [bases ! (c - 224) + 32, m])
     else [c])"

definition normalize_NFKD :: "str \<Rightarrow> str" where
  "normalize_NFKD s = concat (map decomposition s)"

definition combining :: "codepoint \<Rightarrow> bool" where
  "combining c \<longleftrightarrow> 768 \<le> c \<and> c \<le> 879"

section \<open>services/cache\_service.py\<close>

text \<open>\<^verbatim>\<open>re.sub(r'\s+', ' ', text)\<close>; the flag says that the previous character was white space.\<close>

fun sub_spaces :: "bool \<Rightarrow> str \<Rightarrow> str" where
  "sub_spaces in_run [] = []"
| "sub_spaces in_run (c # cs) =
     (if isspace c then (if in_run then sub_spaces True cs else 32 # sub_spaces True cs)
      else c # sub_spaces False cs)"

definition normalize_question :: "str \<Rightarrow> str" where
  "normalize_question question =
     (let nfkd = normalize_NFKD question;
          text1 = filter (\<lambda>c. \<not> combining c) nfkd;
          text2 = strip (lower text1);
          text3 = filter (\<lambda>c. is_word c \<or> isspace c) text2
      in sub_spaces False text3)"

definition negative_signals :: "str list" where
  "negative_signals =
    [ascii ''n'' @ [227] @ ascii ''o encontrei'',
     ascii ''nao encontrei'',
     ascii ''n'' @ [227] @ ascii ''o h'' @ [225] @ ascii '' base'',
     ascii ''nao ha base'',
     ascii ''sem base documental'',
     ascii ''n'' @ [227] @ ascii ''o tenho certeza'',
     ascii ''nao tenho certeza'',
     ascii ''n'' @ [227] @ ascii ''o h'' @ [225] @ ascii '' evid'' @ [234] @ ascii ''ncia'',
     ascii ''nao ha evidencia'',
     ascii ''n'' @ [227] @ ascii ''o sei'',
     ascii ''nao sei'']"

definition should_bypass_cache :: "str \<Rightarrow> bool" where
  "should_bypass_cache answer = any_in negative_signals (lower answer)"

text \<open>
  The two cache tables. \<^verbatim>\<open>qa_user_cache\<close> is \<^verbatim>\<open>UNIQUE(user, normalized)\<close> and
  \<^verbatim>\<open>qa_global_cache\<close> is unique in \<^verbatim>\<open>normalized\<close>, so each table is a map from its key to
  the row's \<^verbatim>\<open>question\<close> and \<^verbatim>\<open>answer\<close>. The row id and the timestamp are never read back.
\<close>

record cache_row =
  row_question :: str
  row_answer :: str

record cache =
  qa_user_cache :: "str \<times> str \<rightharpoonup> cache_row"
  qa_global_cache :: "str \<rightharpoonup> cache_row"

definition init_tables :: cache where
  "init_tables = \<lparr>qa_user_cache = Map.empty, qa_global_cache = Map.empty\<rparr>"

definition get_user_answer :: "cache \<Rightarrow> str \<Rightarrow> str \<Rightarrow> str option" where
  "get_user_answer c user_id q =
     (case qa_user_cache c (user_id, normalize_question q) of
        None \<Rightarrow> None
      | Some row \<Rightarrow> Some (row_answer row))"

definition set_user_answer :: "cache \<Rightarrow> str \<Rightarrow> str \<Rightarrow> str \<Rightarrow> cache" where
  "set_user_answer c user_id q a =
     c\<lparr>qa_user_cache :=
         (qa_user_cache c)((user_id, normalize_question q) \<mapsto> \<lparr>row_question = q, row_answer = a\<rparr>)\<rparr>"

definition get_global_answer :: "cache \<Rightarrow> str \<Rightarrow> str option" where
  "get_global_answer c q =
     (case qa_global_cache c (normalize_question q) of
        None \<Rightarrow> None
      | Some row \<Rightarrow> Some (row_answer row))"

definition set_global_answer :: "cache \<Rightarrow> str \<Rightarrow> str \<Rightarrow> cache" where
  "set_global_answer c q a =
     c\<lparr>qa_global_cache :=
         (qa_global_cache c)(normalize_question q \<mapsto> \<lparr>row_question = q, row_answer = a\<rparr>)\<rparr>"

section \<open>agents/focal\_agent.py: tool selection\<close>

record ToolConfig =
  name :: str
  detect_terms :: "str list"
  filter_terms :: "str list"
  description :: str

definition TOOLS :: "ToolConfig list" where
  "TOOLS =
    [\<lparr>name = ascii ''pauta'',
      detect_terms = [ascii ''pauta'', ascii ''agenda'', ascii ''ordem do dia''],
      filter_terms = [ascii ''pauta'', ascii ''agenda'', ascii ''convocacao''],
      description = ascii ''Busca pautas e agendas de reuni'' @ [245] @ ascii ''es''\<rparr>,
     \<lparr>name = ascii ''ata'',
      detect_terms = [ascii ''ata'', ascii ''sessao'', ascii ''sess'' @ [227] @ ascii ''o'',
                      ascii ''reuniao'', ascii ''reuni'' @ [227] @ ascii ''o''],
      filter_terms = [ascii ''ata''],
      description = ascii ''Busca atas de reuni'' @ [245] @ ascii ''es''\<rparr>,
     \<lparr>name = ascii ''votacao'',
      detect_terms = [ascii ''votacao'', ascii ''vota'' @ [231, 227] @ ascii ''o'',
                      ascii ''resultado'', ascii ''quorum'', ascii ''voto'', ascii ''aprovad''],
      filter_terms = [ascii ''votacao'', ascii ''ata''],
      description = ascii ''Busca informa'' @ [231, 245] @ ascii ''es sobre vota''
                      @ [231, 245] @ ascii ''es''\<rparr>,
     \<lparr>name = ascii ''participantes'',
      detect_terms = [ascii ''participantes'', ascii ''presenca'',
                      ascii ''presen'' @ [231] @ ascii ''a'', ascii ''assinaturas'',
                      ascii ''quem participou''],
      filter_terms = [ascii ''participantes'', ascii ''assinaturas'', ascii ''ata''],
      description = ascii ''Busca lista de participantes''\<rparr>,
     \<lparr>name = ascii ''resolucao'',
      detect_terms = [ascii ''resolucao'', ascii ''resolu'' @ [231, 227] @ ascii ''o''],
      filter_terms = [ascii ''resolucao''],
      description = ascii ''Busca resolu'' @ [231, 245] @ ascii ''es''\<rparr>,
     \<lparr>name = ascii ''portaria'',
      detect_terms = [ascii ''portaria''],
      filter_terms = [ascii ''portaria''],
      description = ascii ''Busca portarias''\<rparr>,
     \<lparr>name = ascii ''data_reuniao'',
      detect_terms = [ascii ''quando foi'', ascii ''data da reuniao'',
                      ascii ''data da reuni'' @ [227] @ ascii ''o'', ascii ''que dia'',
                      ascii ''quando ocorreu''],
      filter_terms = [ascii ''ata'', ascii ''agenda'', ascii ''pauta'', ascii ''convocacao''],
      description = ascii ''Busca datas de reuni'' @ [245] @ ascii ''es''\<rparr>]"

text \<open>The loop over \<^verbatim>\<open>self.tools\<close> returns at the first tool with a matching term.\<close>

definition pick_tool :: "str \<Rightarrow> ToolConfig option" where
  "pick_tool question =
     (let q = lower question
      in find (\<lambda>tool. any_in (detect_terms tool) q) TOOLS)"

section \<open>services/vector\_store.py\<close>

text \<open>
  Exceptions are values: a function that can raise returns \<open>error + 'a\<close>, with \<open>Inl\<close> for
  the exception and its message.
\<close>

datatype error =
    OperationalError string
  | TypeError string
  | ValueError string
  | ProviderError string

text \<open>
  The SQLite database. A table is its list of column names (\<open>None\<close> when the table does
  not exist) and its rows in insertion order. The rows are records named after the SQL
  aliases \<^verbatim>\<open>d\<close> and \<^verbatim>\<open>c\<close> of the queries; a nullable column is an \<open>option\<close>. The columns
  \<^verbatim>\<open>user_id\<close> and \<^verbatim>\<open>is_global\<close> of \<^verbatim>\<open>documentos\<close> are read by every search, and a row's
  value for a column only counts when the table has that column. An embedding is stored
  as a vector of \<^verbatim>\<open>float32\<close>: it is modelled as a vector of real numbers, so rounding is
  not part of the model. The metadata column holds JSON written by \<^verbatim>\<open>json.dumps\<close> and is
  kept as text.
\<close>

record documento =
  d_id :: int
  d_tipo :: str
  d_titulo :: str
  d_numero :: "str option"
  d_data :: "str option"
  d_conselho :: "str option"
  d_caminho :: str
  d_hash_sha256 :: "str option"
  d_user_id :: "str option"
  d_is_global :: "int option"

record chunk =
  c_id :: int
  c_documento_id :: int
  c_conteudo :: str
  c_embedding :: "real list option"
  c_metadata :: "str option"
  c_posicao :: "int option"

record database =
  documentos_columns :: "string list option"
  chunks_columns :: "string list option"
  documentos :: "documento list"
  chunks :: "chunk list"

text \<open>A database file that has just been created holds no table.\<close>

definition new_database :: database where
  "new_database =
     \<lparr>documentos_columns = None, chunks_columns = None, documentos = [], chunks = []\<rparr>"

text \<open>\<^verbatim>\<open>CREATE TABLE IF NOT EXISTS\<close> leaves an existing table as it is.\<close>

definition init_db :: "database \<Rightarrow> database" where
  "init_db db =
     db\<lparr>documentos_columns :=
          (case documentos_columns db of
             None \<Rightarrow> Some [''id'', ''tipo'', ''titulo'', ''numero'', ''data'', ''conselho'',
                           ''caminho'', ''hash_sha256'', ''criado_em'']
           | Some cols \<Rightarrow> Some cols),
        chunks_columns :=
          (case chunks_columns db of
             None \<Rightarrow> Some [''id'', ''documento_id'', ''conteudo'', ''embedding'', ''metadata'',
                           ''posicao'']
           | Some cols \<Rightarrow> Some cols)\<rparr>"

text \<open>
  The \<^verbatim>\<open>SELECT\<close> of the three search methods names these columns, in this order. SQLite
  resolves them when it prepares the statement and raises at the first one that the table
  does not have, whether or not the tables hold rows.
\<close>

definition select_columns :: "(string \<times> string) list" where
  "select_columns =
     [(''c'', ''id''), (''c'', ''conteudo''), (''c'', ''embedding''), (''c'', ''metadata''),
      (''c'', ''posicao''), (''d'', ''tipo''), (''d'', ''titulo''), (''d'', ''numero''),
      (''d'', ''data''), (''d'', ''conselho''), (''d'', ''user_id''), (''d'', ''is_global''),
      (''c'', ''documento_id''), (''d'', ''id'')]"

definition prepare :: "database \<Rightarrow> (string \<times> string) list \<Rightarrow> error + unit" where
  "prepare db cols =
     (case chunks_columns db of
        None \<Rightarrow> Inl (OperationalError ''no such table: chunks'')
      | Some cc \<Rightarrow>
         (case documentos_columns db of
            None \<Rightarrow> Inl (OperationalError ''no such table: documentos'')
          | Some dc \<Rightarrow>
             (case find (\<lambda>(t, col). col \<notin> set (if t = ''c'' then cc else dc)) cols of
                Some (t, col) \<Rightarrow> Inl (OperationalError (''no such column: '' @ t @ ''.'' @ col))
              | None \<Rightarrow> Inr ())))"

text \<open>
  \<^verbatim>\<open>FROM chunks c JOIN documentos d ON c.documento_id = d.id WHERE\<close> \<open>\<dots>\<close>: the rows of the
  join that satisfy the \<^verbatim>\<open>WHERE\<close> clause, in the order of the chunk table.
\<close>

definition fetchall :: "database \<Rightarrow> (documento \<Rightarrow> bool) \<Rightarrow> (chunk \<times> documento) list" where
  "fetchall db wh =
     [(c, d). c \<leftarrow> chunks db, d \<leftarrow> documentos db, c_documento_id c = d_id d, wh d]"

text \<open>
  \<^verbatim>\<open>if user_id:\<close> is Python truthiness: \<^verbatim>\<open>None\<close> and the empty string both take the
  \<^verbatim>\<open>else\<close> branch. In a \<^verbatim>\<open>WHERE\<close> clause a comparison with \<^verbatim>\<open>NULL\<close> selects nothing.
\<close>

definition permission_filter :: "str option \<Rightarrow> documento \<Rightarrow> bool" where
  "permission_filter user_id d =
     (case user_id of
        Some u \<Rightarrow>
          (if u \<noteq> [] then d_is_global d = Some 1 \<or> d_user_id d = Some u
           else d_is_global d = Some 1)
      | None \<Rightarrow> d_is_global d = Some 1)"

text \<open>The dictionary that a search returns for one row.\<close>

record result =
  chunk_id :: int
  conteudo :: str
  similarity :: real
  metadata :: str
  tipo :: str
  titulo :: str
  numero :: "str option"
  data :: "str option"
  conselho :: "str option"
  posicao :: "int option"
  user_id :: "str option"
  is_global :: bool

text \<open>
  \<^verbatim>\<open>np.dot\<close> raises on vectors of different lengths. The norm of the zero vector is
  \<open>0\<close>, and there NumPy divides \<open>0\<close> by \<open>0\<close> to \<^verbatim>\<open>nan\<close>, which has no place in a sorted
  order; HOL's \<open>0 / 0 = 0\<close> is not that value, so the statements about ranking are made
  for vectors of non-zero norm.
\<close>

definition dot :: "real list \<Rightarrow> real list \<Rightarrow> error + real" where
  "dot a b =
     (if length a \<noteq> length b then Inl (ValueError ''shapes not aligned'')
      else Inr (\<Sum>(x, y) \<leftarrow> zip a b. x * y))"

definition linalg_norm :: "real list \<Rightarrow> real" where
  "linalg_norm v = sqrt (\<Sum>x \<leftarrow> v. x * x)"

definition cosine :: "real list \<Rightarrow> real list \<Rightarrow> error + real" where
  "cosine q v =
     (case dot q v of
        Inl e \<Rightarrow> Inl e
      | Inr p \<Rightarrow> Inr (p / (linalg_norm q * linalg_norm v)))"

definition row_result :: "real list \<Rightarrow> chunk \<times> documento \<Rightarrow> error + result" where
  "row_result query_embedding row =
     (case row of (c, d) \<Rightarrow>
       (case c_embedding c of
          None \<Rightarrow> Inl (TypeError ''a bytes-like object is required'')
        | Some embedding \<Rightarrow>
           (case cosine query_embedding embedding of
              Inl e \<Rightarrow> Inl e
            | Inr sim \<Rightarrow>
               Inr \<lparr>chunk_id = c_id c, conteudo = c_conteudo c, similarity = sim,
                    metadata = (case c_metadata c of None \<Rightarrow> ascii ''{}'' | Some m \<Rightarrow>
                                  if m = [] then ascii ''{}'' else m),
                    tipo = d_tipo d, titulo = d_titulo d, numero = d_numero d,
                    data = d_data d, conselho = d_conselho d, posicao = c_posicao c,
                    user_id = d_user_id d,
                    is_global = (case d_is_global d of None \<Rightarrow> False | Some g \<Rightarrow> g \<noteq> 0)\<rparr>)))"

text \<open>The loop over the fetched rows; the first row that raises ends it.\<close>

fun row_results :: "real list \<Rightarrow> (chunk \<times> documento) list \<Rightarrow> error + result list" where
  "row_results query_embedding [] = Inr []"
| "row_results query_embedding (row # rows) =
     (case row_result query_embedding row of
        Inl e \<Rightarrow> Inl e
      | Inr r \<Rightarrow>
         (case row_results query_embedding rows of
            Inl e \<Rightarrow> Inl e
          | Inr rs \<Rightarrow> Inr (r # rs)))"

text \<open>
  \<^verbatim>\<open>results.sort(key=..., reverse=True)\<close>: a stable sort, and with \<^verbatim>\<open>reverse=True\<close> the list is
  reversed, sorted in ascending order and reversed again, which keeps equal keys in their
  original order.
\<close>

definition sort_reverse :: "('a \<Rightarrow> real) \<Rightarrow> 'a list \<Rightarrow> 'a list" where
  "sort_reverse key xs = rev (sort_key key (rev xs))"

text \<open>\<^verbatim>\<open>xs[:k]\<close>: a negative \<open>k\<close> counts from the end of the list.\<close>

definition slice_to :: "int \<Rightarrow> 'a list \<Rightarrow> 'a list" where
  "slice_to k xs = (if 0 \<le> k then take (nat k) xs else take (length xs - nat (- k)) xs)"

text \<open>
  The body that \<open>search\<close>, \<open>search_by_embedding\<close> and \<open>search_with_filter\<close> repeat: run the
  query, score every row, sort and cut.
\<close>

definition ranked ::
  "database \<Rightarrow> (documento \<Rightarrow> bool) \<Rightarrow> real list \<Rightarrow> int \<Rightarrow> error + result list" where
  "ranked db wh query_embedding k =
     (case prepare db select_columns of
        Inl e \<Rightarrow> Inl e
      | Inr _ \<Rightarrow>
         (case row_results query_embedding (fetchall db wh) of
            Inl e \<Rightarrow> Inl e
          | Inr results \<Rightarrow> Inr (slice_to k (sort_reverse similarity results))))"

text \<open>
  A \<^verbatim>\<open>VectorStore\<close> holds its embedding service, which can raise, and \<^verbatim>\<open>db_path\<close>, here the
  content of the database file at that path.
\<close>

record VectorStore =
  embedding_service :: "str \<Rightarrow> error + real list"
  db_path :: database

definition search :: "VectorStore \<Rightarrow> str \<Rightarrow> int \<Rightarrow> str option \<Rightarrow> error + result list" where
  "search vs query k uid =
     (case embedding_service vs query of
        Inl e \<Rightarrow> Inl e
      | Inr query_embedding \<Rightarrow> ranked (db_path vs) (permission_filter uid) query_embedding k)"

definition search_by_embedding ::
  "VectorStore \<Rightarrow> real list \<Rightarrow> int \<Rightarrow> str option \<Rightarrow> error + result list" where
  "search_by_embedding vs embedding k uid =
     ranked (db_path vs) (permission_filter uid) embedding k"

text \<open>
  \<open>search_with_filter\<close>: the permission clause and one equality for each of the keys
  \<^verbatim>\<open>tipo\<close>, \<^verbatim>\<open>conselho\<close>, \<^verbatim>\<open>numero\<close> that the dictionary \<^verbatim>\<open>filters\<close> has.
\<close>

definition filter_clauses :: "(string \<rightharpoonup> str) \<Rightarrow> documento \<Rightarrow> bool" where
  "filter_clauses filters d \<longleftrightarrow>
     (case filters ''tipo'' of None \<Rightarrow> True | Some v \<Rightarrow> d_tipo d = v) \<and>
     (case filters ''conselho'' of None \<Rightarrow> True | Some v \<Rightarrow> d_conselho d = Some v) \<and>
     (case filters ''numero'' of None \<Rightarrow> True | Some v \<Rightarrow> d_numero d = Some v)"

definition search_with_filter ::
  "VectorStore \<Rightarrow> str \<Rightarrow> (string \<rightharpoonup> str) \<Rightarrow> int \<Rightarrow> str option \<Rightarrow> error + result list" where
  "search_with_filter vs query filters k uid =
     (case embedding_service vs query of
        Inl e \<Rightarrow> Inl e
      | Inr query_embedding \<Rightarrow>
          ranked (db_path vs) (\<lambda>d. permission_filter uid d \<and> filter_clauses filters d)
            query_embedding k)"

section \<open>An example store\<close>

text \<open>
  A store whose \<^verbatim>\<open>documentos\<close> table has the two permission columns: a global document with
  three chunks, a private document of \<^verbatim>\<open>alice\<close> and a private document whose owner is the empty
  string, with one chunk each. Every embedding has norm \<open>1\<close>, and the embedding service
  answers every query with the same unit vector.
\<close>

definition migrated_columns :: "string list" where
  "migrated_columns = [''id'', ''tipo'', ''titulo'', ''numero'', ''data'', ''conselho'',
     ''caminho'', ''hash_sha256'', ''criado_em'', ''user_id'', ''is_global'']"

definition example_documento :: "int \<Rightarrow> str option \<Rightarrow> int \<Rightarrow> documento" where
  "example_documento i owner g =
     \<lparr>d_id = i, d_tipo = ascii ''ata'', d_titulo = ascii ''Ata'', d_numero = None,
      d_data = None, d_conselho = None, d_caminho = ascii ''ata.pdf'', d_hash_sha256 = None,
      d_user_id = owner, d_is_global = Some g\<rparr>"

definition example_chunk :: "int \<Rightarrow> int \<Rightarrow> real list \<Rightarrow> chunk" where
  "example_chunk i doc v =
     \<lparr>c_id = i, c_documento_id = doc, c_conteudo = ascii ''texto'', c_embedding = Some v,
      c_metadata = None, c_posicao = Some 0\<rparr>"

definition example_result :: "int \<Rightarrow> real \<Rightarrow> str option \<Rightarrow> bool \<Rightarrow> result" where
  "example_result i sim owner g =
     \<lparr>chunk_id = i, conteudo = ascii ''texto'', similarity = sim, metadata = ascii ''{}'',
      tipo = ascii ''ata'', titulo = ascii ''Ata'', numero = None, data = None,
      conselho = None, posicao = Some 0, user_id = owner, is_global = g\<rparr>"

definition example_store :: VectorStore where
  "example_store =
     \<lparr>embedding_service = (\<lambda>query. Inr [1, 0]),
      db_path = \<lparr>documentos_columns = Some migrated_columns,
            chunks_columns = chunks_columns (init_db new_database),
            documentos = [example_documento 1 None 1,
                          example_documento 2 (Some (ascii ''alice'')) 0,
                          example_documento 3 (Some []) 0],
            chunks = [example_chunk 1 1 [3 / 5, 4 / 5], example_chunk 2 1 [0, 1],
                      example_chunk 3 1 [1, 0], example_chunk 4 2 [1, 0],
                      example_chunk 5 3 [1, 0]]\<rparr>\<rparr>"

section \<open>Regular expressions\<close>

text \<open>
  The patterns of \<^verbatim>\<open>count_helper.py\<close> are built from literals, character classes, sequence,
  alternation, the greedy \<^verbatim>\<open>?\<close>, \<^verbatim>\<open>+\<close> and \<^verbatim>\<open>*\<close>, the lazy \<^verbatim>\<open>*?\<close> and \<^verbatim>\<open>+?\<close> on a character
  class, \<^verbatim>\<open>$\<close> and capture groups. All of them are compiled with \<^verbatim>\<open>re.IGNORECASE\<close>.
\<close>

datatype regex =
    Eps
  | Lit codepoint
  | Cls "codepoint \<Rightarrow> bool"
  | Seq regex regex
  | Alt regex regex
  | Opt regex
  | Plus "codepoint \<Rightarrow> bool"
  | Star "codepoint \<Rightarrow> bool"
  | LazyStar "codepoint \<Rightarrow> bool"
  | LazyPlus "codepoint \<Rightarrow> bool"
  | Eos
  | Group nat regex

type_synonym groups = "nat \<rightharpoonup> str"

text \<open>
  A backtracking matcher in continuation-passing style: the continuation is the rest of
  the pattern, and the alternatives are tried in the order of Python's \<^verbatim>\<open>re\<close> (a greedy
  quantifier tries the longest repetition first, a lazy one the shortest).
\<close>

fun greedy_plus :: "(codepoint \<Rightarrow> bool) \<Rightarrow> str \<Rightarrow> (str \<Rightarrow> 'a option) \<Rightarrow> 'a option" where
  "greedy_plus P [] k = None"
| "greedy_plus P (c # cs) k =
     (if P c then (case greedy_plus P cs k of Some r \<Rightarrow> Some r | None \<Rightarrow> k cs) else None)"

fun lazy_star :: "(codepoint \<Rightarrow> bool) \<Rightarrow> str \<Rightarrow> (str \<Rightarrow> 'a option) \<Rightarrow> 'a option" where
  "lazy_star P [] k = k []"
| "lazy_star P (c # cs) k =
     (case k (c # cs) of
        Some r \<Rightarrow> Some r
      | None \<Rightarrow> if P c then lazy_star P cs k else None)"

text \<open>
  Two characters match under \<^verbatim>\<open>IGNORECASE\<close> when their lowercase forms agree; the four
  letters outside Latin-1 that \<^verbatim>\<open>re\<close> also matches with \<^verbatim>\<open>i\<close>, \<^verbatim>\<open>s\<close> and \<^verbatim>\<open>k\<close> are listed.
\<close>

definition ignorecase_eq :: "codepoint \<Rightarrow> codepoint \<Rightarrow> bool" where
  "ignorecase_eq a c \<longleftrightarrow>
     lower_cp c = lower_cp a \<or> (lower_cp a = 105 \<and> (c = 304 \<or> c = 305)) \<or>
     (lower_cp a = 115 \<and> c = 383) \<or> (lower_cp a = 107 \<and> c = 8490)"

fun match_here ::
  "regex \<Rightarrow> str \<Rightarrow> groups \<Rightarrow> (str \<Rightarrow> groups \<Rightarrow> 'a option) \<Rightarrow> 'a option" where
  "match_here Eps s g k = k s g"
| "match_here (Lit a) s g k =
     (case s of [] \<Rightarrow> None | c # cs \<Rightarrow> if ignorecase_eq a c then k cs g else None)"
| "match_here (Cls P) s g k =
     (case s of [] \<Rightarrow> None | c # cs \<Rightarrow> if P c then k cs g else None)"
| "match_here (Seq a b) s g k = match_here a s g (\<lambda>s' g'. match_here b s' g' k)"
| "match_here (Alt a b) s g k =
     (case match_here a s g k of Some r \<Rightarrow> Some r | None \<Rightarrow> match_here b s g k)"
| "match_here (Opt a) s g k =
     (case match_here a s g k of Some r \<Rightarrow> Some r | None \<Rightarrow> k s g)"
| "match_here (Plus P) s g k = greedy_plus P s (\<lambda>s'. k s' g)"
| "match_here (Star P) s g k =
     (case greedy_plus P s (\<lambda>s'. k s' g) of Some r \<Rightarrow> Some r | None \<Rightarrow> k s g)"
| "match_here (LazyStar P) s g k = lazy_star P s (\<lambda>s'. k s' g)"
| "match_here (LazyPlus P) s g k =
     (case s of [] \<Rightarrow> None | c # cs \<Rightarrow> if P c then lazy_star P cs (\<lambda>s'. k s' g) else None)"
| "match_here Eos s g k = (if s = [] \<or> s = [10] then k s g else None)"
| "match_here (Group n a) s g k =
     match_here a s g (\<lambda>s' g'. k s' (g'(n \<mapsto> take (length s - length s') s)))"

text \<open>\<^verbatim>\<open>re.search\<close>: the match at the leftmost position that has one; \<open>None\<close> when none has.\<close>

fun re_search :: "regex \<Rightarrow> str \<Rightarrow> groups option" where
  "re_search r [] = match_here r [] Map.empty (\<lambda>s g. Some g)"
| "re_search r (c # cs) =
     (case match_here r (c # cs) Map.empty (\<lambda>s g. Some g) of
        Some g \<Rightarrow> Some g
      | None \<Rightarrow> re_search r cs)"

definition group :: "groups \<Rightarrow> nat \<Rightarrow> str" where
  "group g n = (case g n of None \<Rightarrow> [] | Some v \<Rightarrow> v)"

text \<open>\<^verbatim>\<open>re.split\<close> on a class of single characters.\<close>

fun re_split :: "(codepoint \<Rightarrow> bool) \<Rightarrow> str \<Rightarrow> str list" where
  "re_split P [] = [[]]"
| "re_split P (c # cs) =
     (if P c then [] # re_split P cs
      else (case re_split P cs of [] \<Rightarrow> [[c]] | w # ws \<Rightarrow> (c # w) # ws))"

fun lits :: "str \<Rightarrow> regex" where
  "lits [] = Eps"
| "lits (c # cs) = Seq (Lit c) (lits cs)"

definition seqs :: "regex list \<Rightarrow> regex" where
  "seqs rs = foldr Seq rs Eps"

text \<open>\<^verbatim>\<open>.\<close> without \<^verbatim>\<open>DOTALL\<close>, and a bracketed set of characters.\<close>

definition any_char :: "codepoint \<Rightarrow> bool" where
  "any_char c \<longleftrightarrow> c \<noteq> 10"

definition one_of :: "codepoint list \<Rightarrow> codepoint \<Rightarrow> bool" where
  "one_of as c = list_ex (\<lambda>a. ignorecase_eq a c) as"

section \<open>services/count\_helper.py\<close>

text \<open>
  \<^verbatim>\<open>int(s)\<close> on a string of digits and \<^verbatim>\<open>str(n)\<close>. The interpreter's limit on the number of
  digits of such a conversion (4300 by default) is a resource limit like memory and is
  not modelled.
\<close>

definition int_of_str :: "str \<Rightarrow> nat" where
  "int_of_str s = foldl (\<lambda>n c. 10 * n + (c - 48)) 0 s"

fun str_of_nat :: "nat \<Rightarrow> str" where
  "str_of_nat n = (if n < 10 then [48 + n] else str_of_nat (n div 10) @ [48 + n mod 10])"

declare str_of_nat.simps [simp del]

text \<open>
  \<^verbatim>\<open>(\d+)\s+votos?\s+(?:a\s+)?favor.*?(\d+)\s+contra.*?(\d+)\s+absten\<close>,
  \<^verbatim>\<open>aprovad[oa]\s+por\s+unanimidade\<close> and \<^verbatim>\<open>aprovad[oa]\s+por\s+maioria\<close>
\<close>

definition votes_pattern :: regex where
  "votes_pattern = seqs
     [Group 1 (Plus is_digit), Plus isspace, lits (ascii ''voto''), Opt (Lit 115),
      Plus isspace, Opt (Seq (Lit 97) (Plus isspace)), lits (ascii ''favor''),
      LazyStar any_char, Group 2 (Plus is_digit), Plus isspace, lits (ascii ''contra''),
      LazyStar any_char, Group 3 (Plus is_digit), Plus isspace, lits (ascii ''absten'')]"

definition unanimidade_pattern :: regex where
  "unanimidade_pattern = seqs
     [lits (ascii ''aprovad''), Cls (one_of [111, 97]), Plus isspace, lits (ascii ''por''),
      Plus isspace, lits (ascii ''unanimidade'')]"

definition maioria_pattern :: regex where
  "maioria_pattern = seqs
     [lits (ascii ''aprovad''), Cls (one_of [111, 97]), Plus isspace, lits (ascii ''por''),
      Plus isspace, lits (ascii ''maioria'')]"

definition votes_fact :: "str \<Rightarrow> str \<Rightarrow> str \<Rightarrow> str" where
  "votes_fact favor contra abstencoes =
     (let total = int_of_str favor + int_of_str contra + int_of_str abstencoes
      in ascii ''Vota'' @ [231, 227] @ ascii ''o: '' @ favor @ ascii '' a favor, '' @ contra
         @ ascii '' contra, '' @ abstencoes @ ascii '' absten'' @ [231, 245]
         @ ascii ''es (total: '' @ str_of_nat total @ ascii '')'')"

text \<open>The body of the loop of \<^verbatim>\<open>_derive_voting_counts\<close> for the text of one chunk.\<close>

definition voting_facts :: "str \<Rightarrow> str list" where
  "voting_facts content =
     (case re_search votes_pattern content of
        None \<Rightarrow> []
      | Some g \<Rightarrow> [votes_fact (group g 1) (group g 2) (group g 3)]) @
     (if re_search unanimidade_pattern content \<noteq> None
      then [ascii ''Aprovado por unanimidade''] else []) @
     (if re_search maioria_pattern content \<noteq> None
      then [ascii ''Aprovado por maioria''] else [])"

text \<open>
  The chunks are the dictionaries that a search returns, so \<^verbatim>\<open>chunk.get('conteudo', '')\<close>
  is the field \<open>conteudo\<close>.
\<close>

definition derive_voting_counts :: "result list \<Rightarrow> str list" where
  "derive_voting_counts chs = concat (map (\<lambda>ch. voting_facts (conteudo ch)) chs)"

text \<open>\<^verbatim>\<open>presentes:\s*(.+?)(?:\n|$)\<close> and \<^verbatim>\<open>(\d+)\s+participantes?\<close>\<close>

definition presentes_pattern :: regex where
  "presentes_pattern = seqs
     [lits (ascii ''presentes:''), Star isspace, Group 1 (LazyPlus any_char),
      Alt (Lit 10) Eos]"

definition participantes_pattern :: regex where
  "participantes_pattern = seqs
     [Group 1 (Plus is_digit), Plus isspace, lits (ascii ''participante''), Opt (Lit 115)]"

text \<open>The names that one chunk adds to the set \<^verbatim>\<open>participants\<close>.\<close>

definition participant_names :: "str \<Rightarrow> str list" where
  "participant_names content =
     (if str_in (ascii ''presentes:'') (lower content) then
        (case re_search presentes_pattern content of
           None \<Rightarrow> []
         | Some g \<Rightarrow>
             filter (\<lambda>nm. nm \<noteq> [] \<and> length nm > 3)
               (map strip (re_split (\<lambda>c. c = 44 \<or> c = 59) (group g 1))))
      else [])"

definition participant_total :: "str \<Rightarrow> str list" where
  "participant_total content =
     (case re_search participantes_pattern content of
        None \<Rightarrow> []
      | Some g \<Rightarrow> [ascii ''Total de participantes: '' @ group g 1])"

definition derive_participant_counts :: "result list \<Rightarrow> str list" where
  "derive_participant_counts chs =
     (let facts = concat (map (\<lambda>ch. participant_total (conteudo ch)) chs);
          participants = remdups (concat (map (\<lambda>ch. participant_names (conteudo ch)) chs))
      in if participants \<noteq> []
         then facts @ [ascii ''Participantes identificados: ''
                        @ str_of_nat (length participants)]
         else facts)"

text \<open>\<^verbatim>\<open>qu[o\<close>\<open>\<dots>\<close>\<^verbatim>\<open>]rum\s+de\s+(\d+)\<close>, \<^verbatim>\<open>qu[o\<close>\<open>\<dots>\<close>\<^verbatim>\<open>]rum\s+atingido\<close> and \<^verbatim>\<open>sem\s+qu[o\<close>\<open>\<dots>\<close>\<^verbatim>\<open>]rum\<close>\<close>

definition quorum_de_pattern :: regex where
  "quorum_de_pattern = seqs
     [lits (ascii ''qu''), Cls (one_of [111, 243]), lits (ascii ''rum''), Plus isspace,
      lits (ascii ''de''), Plus isspace, Group 1 (Plus is_digit)]"

definition quorum_atingido_pattern :: regex where
  "quorum_atingido_pattern = seqs
     [lits (ascii ''qu''), Cls (one_of [111, 243]), lits (ascii ''rum''), Plus isspace,
      lits (ascii ''atingido'')]"

definition sem_quorum_pattern :: regex where
  "sem_quorum_pattern = seqs
     [lits (ascii ''sem''), Plus isspace, lits (ascii ''qu''), Cls (one_of [111, 243]),
      lits (ascii ''rum'')]"

definition quorum_facts :: "str \<Rightarrow> str list" where
  "quorum_facts content =
     (case re_search quorum_de_pattern content of
        None \<Rightarrow> []
      | Some g \<Rightarrow> [ascii ''Qu'' @ [243] @ ascii ''rum: '' @ group g 1]) @
     (if re_search quorum_atingido_pattern content \<noteq> None
      then [ascii ''Qu'' @ [243] @ ascii ''rum atingido''] else []) @
     (if re_search sem_quorum_pattern content \<noteq> None
      then [ascii ''Sem qu'' @ [243] @ ascii ''rum''] else [])"

definition derive_quorum_info :: "result list \<Rightarrow> str list" where
  "derive_quorum_info chs = concat (map (\<lambda>ch. quorum_facts (conteudo ch)) chs)"

text \<open>The intent keywords of the three categories.\<close>

definition voting_terms :: "str list" where
  "voting_terms =
     [ascii ''votacao'', ascii ''vota'' @ [231, 227] @ ascii ''o'', ascii ''voto'',
      ascii ''aprovad'', ascii ''resultado'']"

definition participant_terms :: "str list" where
  "participant_terms =
     [ascii ''participantes'', ascii ''presenca'', ascii ''presen'' @ [231] @ ascii ''a'',
      ascii ''quem'', ascii ''quantos'']"

definition derive_counts :: "str \<Rightarrow> result list \<Rightarrow> str list" where
  "derive_counts q chs =
     (let q_lower = lower q;
          facts1 = (if any_in voting_terms q_lower then derive_voting_counts chs else []);
          facts2 = (if any_in participant_terms q_lower
                    then derive_participant_counts chs else []);
          facts3 = (if str_in (ascii ''quorum'') q_lower
                       \<or> str_in (ascii ''qu'' @ [243] @ ascii ''rum'') q_lower
                    then derive_quorum_info chs else [])
      in facts1 @ facts2 @ facts3)"




section \<open>agents/focal\_agent.py: run\<close>

record AgentResult =
  ar_tool :: "str option"
  ar_chunks :: "result list"
  ar_enhanced_query :: str

text \<open>
  \<open>run\<close> for an agent built on the store \<open>vs\<close>. The \<^verbatim>\<open>try\<close> block turns every exception of
  the search into an empty chunk list. The dictionary \<^verbatim>\<open>filters\<close> is non-empty exactly for
  the four tools that name a document type.
\<close>

definition enhance_query :: "ToolConfig \<Rightarrow> str \<Rightarrow> str" where
  "enhance_query t q =
     (if name t = ascii ''data_reuniao'' then
        q @ ascii '' data reuni'' @ [227] @ ascii ''o sess'' @ [227]
          @ ascii ''o ata agenda pauta convoca'' @ [231, 227] @ ascii ''o''
      else if name t = ascii ''votacao'' then
        q @ ascii '' vota'' @ [231, 227] @ ascii ''o resultado qu'' @ [243]
          @ ascii ''rum aprovada''
      else if name t = ascii ''participantes'' then
        q @ ascii '' participantes presen'' @ [231] @ ascii ''a assinaturas lista''
      else q)"

text \<open>The keyword filter that follows a search without a type filter.\<close>

definition post_filter :: "ToolConfig \<Rightarrow> int \<Rightarrow> result list \<Rightarrow> result list" where
  "post_filter t k results =
     (if filter_terms t \<noteq> [] then
        slice_to k
          (filter (\<lambda>r. list_ex (\<lambda>tm. str_in tm (lower (conteudo r))
                                   \<or> str_in tm (lower (titulo r)))
                          (filter_terms t))
             results)
      else results)"

text \<open>The body of the \<^verbatim>\<open>try\<close> block.\<close>

definition execute_search ::
  "VectorStore \<Rightarrow> ToolConfig \<Rightarrow> str \<Rightarrow> int \<Rightarrow> str option \<Rightarrow> error + result list" where
  "execute_search vs t enhanced_query k uid =
     (if name t \<in> set [ascii ''pauta'', ascii ''ata'', ascii ''resolucao'', ascii ''portaria'']
      then search_with_filter vs enhanced_query [''tipo'' \<mapsto> name t] k uid
      else
        (case search vs enhanced_query k uid of
           Inl e \<Rightarrow> Inl e
         | Inr results \<Rightarrow> Inr (post_filter t k results)))"

definition run :: "VectorStore \<Rightarrow> str \<Rightarrow> int \<Rightarrow> str option \<Rightarrow> AgentResult" where
  "run vs q k uid =
     (case pick_tool q of
        None \<Rightarrow> \<lparr>ar_tool = None, ar_chunks = [], ar_enhanced_query = q\<rparr>
      | Some t \<Rightarrow>
         (let enhanced_query = enhance_query t q
          in case execute_search vs t enhanced_query k uid of
               Inl e \<Rightarrow> \<lparr>ar_tool = Some (name t), ar_chunks = [],
                         ar_enhanced_query = enhanced_query\<rparr>
             | Inr results \<Rightarrow> \<lparr>ar_tool = Some (name t), ar_chunks = results,
                               ar_enhanced_query = enhanced_query\<rparr>))"

section \<open>services/chat\_service.py\<close>

record ChatMessage =
  msg_role :: str
  msg_content :: str

record SemanticEnrichment =
  rewritten :: str
  heuristics :: "str list"
  alternates :: "str list"
  se_confidence :: real

record ClarificationNeeded =
  original_query :: str
  ambiguity_type :: str
  cl_question :: str
  cl_options :: "str list"
  cl_confidence :: real

text \<open>
  The dictionary \<^verbatim>\<open>metadata\<close>. The keys that only some paths set are options;
  \<^verbatim>\<open>clarification\<close> is set (to \<^verbatim>\<open>True\<close>) on the clarification path only.
\<close>

record metadata_dict =
  md_user_id :: str
  md_role :: str
  md_cache_hit :: "string option"
  md_agent_tool :: "str option"
  md_num_chunks :: nat
  md_num_facts :: nat
  md_clarification :: bool
  md_error :: "str option"
  md_enrichment :: "SemanticEnrichment option"
  md_derived_facts :: "str list option"
  md_chunks :: "result list option"

text \<open>
  A source line is the first 50 characters of a title and a similarity; its formatting as
  a percentage is floating-point formatting and is left out.
\<close>

record ChatResponse =
  message :: ChatMessage
  sources :: "(str \<times> real) list"
  response_metadata :: metadata_dict

record AuditRecord =
  a_user :: str
  a_role :: str
  a_input_text :: str
  a_output_text :: str
  a_metadata :: metadata_dict

record enricher_input =
  ei_user_question :: str
  ei_chunks :: "result list"
  ei_history :: "ChatMessage list"
  ei_semantic_enrichment :: "SemanticEnrichment option"
  ei_derived_facts :: "str list"
  ei_agent_tool :: "str option"

text \<open>
  The service and its injected collaborators; \<open>None\<close> (\<open>False\<close> for the count helper, which
  has no state) is a collaborator that was not given. The language model, the rewriter, the
  clarifier and the prompt enricher are functions that can raise; the model answers with
  the pieces of its stream. The focal agent is given by the store it was built on. The
  cache tables and the audit log are the state that \<open>answer\<close> changes.
\<close>

record ChatService =
  llm :: "ChatMessage list \<Rightarrow> error + str list"
  vector_store :: "VectorStore option"
  cache :: "cache option"
  audit :: "AuditRecord list option"
  rewriter :: "(str \<Rightarrow> error + SemanticEnrichment) option"
  agent :: "VectorStore option"
  counter :: bool
  enricher :: "(enricher_input \<Rightarrow> error + ChatMessage list) option"
  clarifier :: "(str \<Rightarrow> result list \<Rightarrow> error + ClarificationNeeded option) option"
  system_prompt :: str

definition str_of_error :: "error \<Rightarrow> str" where
  "str_of_error e =
     (case e of OperationalError m \<Rightarrow> ascii m | TypeError m \<Rightarrow> ascii m
      | ValueError m \<Rightarrow> ascii m | ProviderError m \<Rightarrow> ascii m)"

definition signals :: "str list" where
  "signals =
    [ascii ''n'' @ [227] @ ascii ''o encontrei'',
     ascii ''nao encontrei'',
     ascii ''n'' @ [227] @ ascii ''o h'' @ [225] @ ascii '' base'',
     ascii ''nao ha base'',
     ascii ''sem base documental'',
     ascii ''n'' @ [227] @ ascii ''o tenho certeza'',
     ascii ''nao tenho certeza'',
     ascii ''sem informa'' @ [231, 227] @ ascii ''o'',
     ascii ''sem informacao'']"

definition is_negative :: "str \<Rightarrow> bool" where
  "is_negative a = any_in signals (lower a)"

definition log_audit ::
  "ChatService \<Rightarrow> str \<Rightarrow> str \<Rightarrow> str \<Rightarrow> str \<Rightarrow> metadata_dict \<Rightarrow> ChatService" where
  "log_audit cs usr rl input_text output_text md =
     (case audit cs of
        None \<Rightarrow> cs
      | Some records \<Rightarrow>
          cs\<lparr>audit := Some (records @ [\<lparr>a_user = usr, a_role = rl, a_input_text = input_text,
                                         a_output_text = output_text, a_metadata = md\<rparr>])\<rparr>)"

text \<open>Step 1: the user cache, then the global cache; an empty or negative entry is a miss.\<close>

definition usable :: "str option \<Rightarrow> bool" where
  "usable cached = (case cached of None \<Rightarrow> False | Some a \<Rightarrow> a \<noteq> [] \<and> \<not> is_negative a)"

definition check_cache :: "ChatService \<Rightarrow> str \<Rightarrow> str \<Rightarrow> (string \<times> str) option" where
  "check_cache cs uid user_message =
     (case cache cs of
        None \<Rightarrow> None
      | Some c \<Rightarrow>
          if usable (get_user_answer c uid user_message)
          then Some (''user'', the (get_user_answer c uid user_message))
          else if usable (get_global_answer c user_message)
          then Some (''global'', the (get_global_answer c user_message))
          else None)"

text \<open>Step 2: semantic rewriting.\<close>

definition semantic_rewriting ::
  "ChatService \<Rightarrow> str \<Rightarrow> error + SemanticEnrichment option \<times> str" where
  "semantic_rewriting cs user_message =
     (case rewriter cs of
        None \<Rightarrow> Inr (None, user_message)
      | Some enrich \<Rightarrow>
         (case enrich user_message of
            Inl e \<Rightarrow> Inl e
          | Inr enrichment \<Rightarrow> Inr (Some enrichment, rewritten enrichment)))"

text \<open>
  Step 3: the focal agent, or the plain search. Neither call passes a user id, so both
  run with the default \<^verbatim>\<open>user_id=None\<close>.
\<close>

definition focal_agent_search ::
  "ChatService \<Rightarrow> str \<Rightarrow> error + result list \<times> str option" where
  "focal_agent_search cs search_query =
     (case (agent cs, vector_store cs) of
        (Some agent_store, Some vs) \<Rightarrow>
          (let agent_result = run agent_store search_query 5 None
           in Inr (ar_chunks agent_result, ar_tool agent_result))
      | (None, Some vs) \<Rightarrow>
          (case search vs search_query 5 None of
             Inl e \<Rightarrow> Inl e
           | Inr found \<Rightarrow> Inr (found, None))
      | (_, None) \<Rightarrow> Inr ([], None))"

text \<open>Step 5: the text of a clarification request.\<close>

definition clarification_text :: "ClarificationNeeded \<Rightarrow> str" where
  "clarification_text cl =
     [129300, 32] @ cl_question cl @ [10, 10] @
     (if cl_options cl \<noteq> [] then
        ascii ''**Op'' @ [231, 245] @ ascii ''es:**'' @ [10] @
        concat (map (\<lambda>opt. ascii ''- '' @ opt @ [10]) (cl_options cl))
      else []) @
     [10] @ ascii ''Por favor, seja mais espec'' @ [237] @ ascii ''fico.''"

text \<open>Step 8: cache storage.\<close>

definition cache_storage :: "ChatService \<Rightarrow> str \<Rightarrow> str \<Rightarrow> str \<Rightarrow> ChatService" where
  "cache_storage cs uid user_message response_text =
     (case cache cs of
        None \<Rightarrow> cs
      | Some c \<Rightarrow>
          if response_text \<noteq> [] \<and> \<not> is_negative response_text
          then cs\<lparr>cache := Some (set_global_answer
                                   (set_user_answer c uid user_message response_text)
                                   user_message response_text)\<rparr>
          else cs)"

text \<open>
  Steps 6 to 9 (prompt, generation, cache storage, audit) for the chunks, the facts and
  the metadata of the steps before.
\<close>

definition generate ::
  "ChatService \<Rightarrow> str \<Rightarrow> ChatMessage list \<Rightarrow> str \<Rightarrow> str \<Rightarrow> SemanticEnrichment option \<Rightarrow>
   result list \<Rightarrow> str option \<Rightarrow> str list \<Rightarrow> metadata_dict \<Rightarrow>
   error + ChatResponse \<times> ChatService" where
  "generate cs user_message hist uid rl enrichment chs agent_tool derived_facts md =
     (case (case enricher cs of
              Some enrich \<Rightarrow>
                enrich \<lparr>ei_user_question = user_message, ei_chunks = chs,
                        ei_history = drop (length hist - 10) hist,
                        ei_semantic_enrichment = enrichment,
                        ei_derived_facts = derived_facts, ei_agent_tool = agent_tool\<rparr>
            | None \<Rightarrow>
                Inr [\<lparr>msg_role = ascii ''system'', msg_content = system_prompt cs\<rparr>,
                     \<lparr>msg_role = ascii ''user'', msg_content = user_message\<rparr>]) of
        Inl e \<Rightarrow> Inl e
      | Inr messages \<Rightarrow>
         (let (response_text, md1) =
                (case llm cs messages of
                   Inr pieces \<Rightarrow> (concat pieces, md)
                 | Inl e \<Rightarrow> (ascii ''Erro ao gerar resposta: '' @ str_of_error e,
                             md\<lparr>md_error := Some (str_of_error e)\<rparr>));
              cs1 = cache_storage cs uid user_message response_text;
              cs2 = log_audit cs1 uid rl user_message response_text md1
          in Inr (\<lparr>message = \<lparr>msg_role = ascii ''assistant'', msg_content = response_text\<rparr>,
                   sources = map (\<lambda>c. (take 50 (titulo c), similarity c)) (take 5 chs),
                   response_metadata =
                     md1\<lparr>md_enrichment := enrichment, md_derived_facts := Some derived_facts,
                         md_chunks := Some chs\<rparr>\<rparr>,
                  cs2)))"

text \<open>
  \<open>answer\<close> returns the response and the service with its new cache tables and audit log;
  \<open>Inl\<close> is an exception that leaves \<open>answer\<close>.
\<close>

definition answer ::
  "ChatService \<Rightarrow> str \<Rightarrow> ChatMessage list option \<Rightarrow> str \<Rightarrow> str \<Rightarrow>
   error + ChatResponse \<times> ChatService" where
  "answer cs user_message history uid rl =
     (let hist = (case history of None \<Rightarrow> [] | Some h \<Rightarrow> h);
          md = \<lparr>md_user_id = uid, md_role = rl, md_cache_hit = None, md_agent_tool = None,
                md_num_chunks = 0, md_num_facts = 0, md_clarification = False,
                md_error = None, md_enrichment = None, md_derived_facts = None,
                md_chunks = None\<rparr>
      in case check_cache cs uid user_message of
           Some (level, cached) \<Rightarrow>
             Inr (\<lparr>message = \<lparr>msg_role = ascii ''assistant'', msg_content = cached\<rparr>,
                   sources = [],
                   response_metadata = md\<lparr>md_cache_hit := Some level\<rparr>\<rparr>,
                  log_audit cs uid rl user_message cached (md\<lparr>md_cache_hit := Some level\<rparr>))
         | None \<Rightarrow>
            (case semantic_rewriting cs user_message of
               Inl e \<Rightarrow> Inl e
             | Inr (enrichment, search_query) \<Rightarrow>
                (case focal_agent_search cs search_query of
                   Inl e \<Rightarrow> Inl e
                 | Inr (chs, agent_tool) \<Rightarrow>
                    (let md2 = md\<lparr>md_agent_tool := agent_tool, md_num_chunks := length chs\<rparr>;
                         derived_facts =
                           (if counter cs \<and> chs \<noteq> [] then derive_counts user_message chs
                            else []);
                         md3 = (if counter cs \<and> chs \<noteq> []
                                then md2\<lparr>md_num_facts := length derived_facts\<rparr> else md2)
                     in case (case clarifier cs of
                                Some check_clarification \<Rightarrow>
                                  if chs \<noteq> [] then check_clarification user_message chs
                                  else Inr None
                              | None \<Rightarrow> Inr None) of
                          Inl e \<Rightarrow> Inl e
                        | Inr clarification \<Rightarrow>
                           (case clarification of
                              Some cl \<Rightarrow>
                                if cl_confidence cl > 7 / 10 then
                                  Inr (\<lparr>message = \<lparr>msg_role = ascii ''assistant'',
                                                    msg_content = clarification_text cl\<rparr>,
                                        sources = [],
                                        response_metadata = md3\<lparr>md_clarification := True\<rparr>\<rparr>,
                                       log_audit cs uid rl user_message (clarification_text cl)
                                         (md3\<lparr>md_clarification := True\<rparr>))
                                else generate cs user_message hist uid rl enrichment chs
                                       agent_tool derived_facts md3
                            | None \<Rightarrow>
                                generate cs user_message hist uid rl enrichment chs
                                  agent_tool derived_facts md3)))))"

text \<open>
  The response of a call of \<open>answer\<close> with the user id of its metadata blanked: what two
  calls for different users can have in common.
\<close>

definition forget_user :: "ChatResponse \<Rightarrow> ChatResponse" where
  "forget_user resp = resp\<lparr>response_metadata := (response_metadata resp)\<lparr>md_user_id := []\<rparr>\<rparr>"

definition response_of :: "error + ChatResponse \<times> ChatService \<Rightarrow> error + ChatResponse" where
  "response_of out = (case out of Inl e \<Rightarrow> Inl e | Inr (resp, cs') \<Rightarrow> Inr (forget_user resp))"

text \<open>
  A chat service on the example store, with empty cache tables and a language model that
  answers with the given pieces.
\<close>

definition example_service :: "str list \<Rightarrow> ChatService" where
  "example_service pieces =
     \<lparr>llm = (\<lambda>messages. Inr pieces), vector_store = Some example_store,
      cache = Some init_tables, audit = Some [], rewriter = None,
      agent = Some example_store, counter = True, enricher = None, clarifier = None,
      system_prompt = ascii ''Responda com base nos documentos.''\<rparr>"

section \<open>Properties of the answer cache\<close>

lemma ascii_simps [simp]:
  "ascii [] = []"
  "ascii (c # cs) = of_char c # ascii cs"
  by (simp_all add: ascii_def)

text \<open>
  C7. Cache round trip: after \<open>set_user_answer\<close> for a user and a question, \<open>get_user_answer\<close>
  for the same user and question returns exactly the stored answer, whatever the table held
  before; the same for \<open>set_global_answer\<close> and \<open>get_global_answer\<close>. This holds for every
  answer, in particular for every answer that is not a negative one.
\<close>

theorem cache_round_trip:
  "get_user_answer (set_user_answer c uid q a) uid q = Some a \<and>
   get_global_answer (set_global_answer c q a) q = Some a"
  by (simp add: get_user_answer_def set_user_answer_def get_global_answer_def
        set_global_answer_def)

text \<open>
  C3. \<open>normalize_question\<close> is not idempotent: it strips the ends of the text before it
  removes the punctuation, so white space that stood before a trailing punctuation mark
  survives the first pass and is stripped by the second. \<^verbatim>\<open>"a !"\<close> normalizes to \<^verbatim>\<open>"a "\<close>,
  and that to \<^verbatim>\<open>"a"\<close>.
\<close>

theorem normalize_question_not_idempotent:
  "normalize_question (ascii ''a !'') = ascii ''a '' \<and>
   normalize_question (normalize_question (ascii ''a !'')) = ascii ''a'' \<and>
   normalize_question (normalize_question (ascii ''a !'')) \<noteq> normalize_question (ascii ''a !'')"
  by (simp add: normalize_question_def normalize_NFKD_def decomposition_def combining_def
        lower_def lower_cp_def strip_def isspace_def is_word_def is_digit_def)

text \<open>
  C4. \<open>pick_tool\<close> on \<^verbatim>\<open>"Qual a pauta da pr\<close>\<open>\<dots>\<close>\<^verbatim>\<open>xima reuni\<close>\<open>\<dots>\<close>\<^verbatim>\<open>o?"\<close> returns the tool \<^verbatim>\<open>pauta\<close>. On
  \<^verbatim>\<open>"Quando foi a reuni\<close>\<open>\<dots>\<close>\<^verbatim>\<open>o?"\<close> it returns the tool \<^verbatim>\<open>ata\<close>, not \<^verbatim>\<open>data_reuniao\<close>: the
  lowercased question contains the detect-term \<^verbatim>\<open>reuni\<close>\<open>\<dots>\<close>\<^verbatim>\<open>o\<close> of \<^verbatim>\<open>ata\<close>, which stands before
  \<^verbatim>\<open>data_reuniao\<close> in the table.
\<close>

theorem pick_tool_quando_foi_a_reuniao:
  "map_option name (pick_tool (ascii ''Qual a pauta da pr'' @ [243] @ ascii ''xima reuni''
      @ [227] @ ascii ''o?'')) = Some (ascii ''pauta'') \<and>
   map_option name (pick_tool (ascii ''Quando foi a reuni'' @ [227] @ ascii ''o?''))
     = Some (ascii ''ata'') \<and>
   map_option name (pick_tool (ascii ''Quando foi a reuni'' @ [227] @ ascii ''o?''))
     \<noteq> Some (ascii ''data_reuniao'')"
  by (simp add: pick_tool_def TOOLS_def any_in_def lower_def lower_cp_def)

section \<open>Properties of the vector store\<close>

lemma row_results_Inr:
  "row_results q rows = Inr rs \<Longrightarrow> list_all2 (\<lambda>row r. row_result q row = Inr r) rows rs"
  by (induction rows arbitrary: rs) (auto split: sum.splits)


lemma set_sort_reverse: "set (sort_reverse key xs) = set xs"
  by (simp add: sort_reverse_def)







lemma fetchall_iff:
  "(c, d) \<in> set (fetchall db wh) \<longleftrightarrow>
     c \<in> set (chunks db) \<and> d \<in> set (documentos db) \<and> c_documento_id c = d_id d \<and> wh d"
  by (auto simp: fetchall_def)

lemma permission_filter_iff:
  "permission_filter uid d \<longleftrightarrow>
     d_is_global d = Some 1 \<or> (\<exists>u. u \<noteq> [] \<and> uid = Some u \<and> d_user_id d = Some u)"
  by (auto simp: permission_filter_def split: option.splits)


lemma list_all2_member:
  "list_all2 P xs ys \<Longrightarrow> y \<in> set ys \<Longrightarrow> \<exists>x \<in> set xs. P x y"
  by (induction rule: list_all2_induct) auto

lemma set_slice_to: "set (slice_to k xs) \<subseteq> set xs"
  by (auto simp: slice_to_def dest: in_set_takeD)

lemma ranked_Inr:
  "ranked db wh qe k = Inr rs \<Longrightarrow>
     \<exists>all. row_results qe (fetchall db wh) = Inr all \<and>
           rs = slice_to k (sort_reverse similarity all)"
  by (auto simp: ranked_def split: sum.splits)

lemma ranked_member:
  assumes "ranked db wh qe k = Inr rs" "r \<in> set rs"
  shows "\<exists>row \<in> set (fetchall db wh). row_result qe row = Inr r"
proof -
  from assms(1) obtain all where a: "row_results qe (fetchall db wh) = Inr all"
    and rs: "rs = slice_to k (sort_reverse similarity all)"
    using ranked_Inr by blast
  from assms(2) rs have "r \<in> set all"
    using set_slice_to [of k "sort_reverse similarity all"] by (auto simp: set_sort_reverse)
  with row_results_Inr [OF a] show ?thesis by (rule list_all2_member)
qed

lemmas example_defs = example_store_def migrated_columns_def example_documento_def
  example_chunk_def example_result_def init_db_def new_database_def search_def ranked_def
  prepare_def select_columns_def fetchall_def permission_filter_def row_result_def cosine_def
  dot_def linalg_norm_def sort_reverse_def slice_to_def


lemma example_search_negative:
  "search example_store (ascii ''pauta'') (- 1) None =
     Inr [example_result 3 1 None True, example_result 1 (3 / 5) None True]"
  by (simp add: example_defs)

lemma example_search_alice:
  "search example_store (ascii ''pauta'') 5 (Some (ascii ''alice'')) =
     Inr [example_result 3 1 None True, example_result 4 1 (Some (ascii ''alice'')) False,
          example_result 1 (3 / 5) None True, example_result 2 0 None True]"
  by (simp add: example_defs)

lemma example_search_empty_requester:
  "search example_store (ascii ''pauta'') 5 (Some []) =
     Inr [example_result 3 1 None True, example_result 1 (3 / 5) None True,
          example_result 2 0 None True]"
  by (simp add: example_defs)

lemma example_search_empty_query:
  "search example_store [] 5 None =
     Inr [example_result 3 1 None True, example_result 1 (3 / 5) None True,
          example_result 2 0 None True]"
  by (simp add: example_defs)

lemma example_search_0:
  "search example_store (ascii ''pauta'') 0 None = Inr []"
  by (simp add: example_defs)

text \<open>
  C1 (amended). Every result of \<open>search\<close> and of \<open>search_by_embedding\<close> is the dictionary
  of a row that the permission clause admitted, and a row of the join of chunks and
  documents is admitted exactly when its document is global (\<^verbatim>\<open>is_global = 1\<close>) or the
  requester id is a non-empty string equal to the document's owner. A requester id that is
  \<^verbatim>\<open>None\<close> or the empty string admits the global documents only. So a chunk of a non-global
  document of user A is never a result for another requester or for none, and it is
  admitted for the requester A when A is not the empty string.
\<close>

theorem permission_scoped_search:
  "(search vs q k uid = Inr rs \<or> search_by_embedding vs e k uid = Inr rs \<longrightarrow>
      (\<exists>qe. \<forall>r \<in> set rs. \<exists>row \<in> set (fetchall (db_path vs) (permission_filter uid)).
          row_result qe row = Inr r)) \<and>
   (\<forall>c d. (c, d) \<in> set (fetchall (db_path vs) (permission_filter uid)) \<longleftrightarrow>
       c \<in> set (chunks (db_path vs)) \<and> d \<in> set (documentos (db_path vs)) \<and>
       c_documento_id c = d_id d \<and>
       (d_is_global d = Some 1 \<or> (\<exists>u. u \<noteq> [] \<and> uid = Some u \<and> d_user_id d = Some u)))"
proof (intro conjI impI allI)
  assume "search vs q k uid = Inr rs \<or> search_by_embedding vs e k uid = Inr rs"
  then obtain qe where "ranked (db_path vs) (permission_filter uid) qe k = Inr rs"
    by (auto simp: search_def search_by_embedding_def split: sum.splits)
  then show "\<exists>qe. \<forall>r \<in> set rs. \<exists>row \<in> set (fetchall (db_path vs) (permission_filter uid)).
          row_result qe row = Inr r"
    using ranked_member by blast
next
  fix c d
  show "(c, d) \<in> set (fetchall (db_path vs) (permission_filter uid)) \<longleftrightarrow>
       c \<in> set (chunks (db_path vs)) \<and> d \<in> set (documentos (db_path vs)) \<and>
       c_documento_id c = d_id d \<and>
       (d_is_global d = Some 1 \<or> (\<exists>u. u \<noteq> [] \<and> uid = Some u \<and> d_user_id d = Some u))"
    by (simp only: fetchall_iff permission_filter_iff)
qed

theorem permission_scoped_search_witness:
  "search example_store (ascii ''pauta'') 5 (Some (ascii ''alice'')) =
     Inr [example_result 3 1 None True, example_result 4 1 (Some (ascii ''alice'')) False,
          example_result 1 (3 / 5) None True, example_result 2 0 None True] \<and>
   (\<exists>qe. \<forall>r \<in> set [example_result 3 1 None True,
                      example_result 4 1 (Some (ascii ''alice'')) False,
                      example_result 1 (3 / 5) None True, example_result 2 0 None True].
      \<exists>row \<in> set (fetchall (db_path example_store) (permission_filter (Some (ascii ''alice'')))).
         row_result qe row = Inr r) \<and>
   (example_chunk 4 2 [1, 0], example_documento 2 (Some (ascii ''alice'')) 0)
     \<in> set (fetchall (db_path example_store) (permission_filter (Some (ascii ''alice''))))"
proof -
  note t = permission_scoped_search [of example_store "ascii ''pauta''" 5
      "Some (ascii ''alice'')" _ "[1, 0]"]
  have "(example_chunk 4 2 [1, 0], example_documento 2 (Some (ascii ''alice'')) 0)
     \<in> set (fetchall (db_path example_store) (permission_filter (Some (ascii ''alice''))))"
    using t [THEN conjunct2]
    by (simp add: example_store_def example_documento_def example_chunk_def)
  with t [THEN conjunct1] example_search_alice show ?thesis by blast
qed

text \<open>
  The claim as stated fails for the empty string: a non-global document whose owner is
  \<^verbatim>\<open>""\<close> is not admitted for the requester \<^verbatim>\<open>""\<close>, although owner and requester id are equal.
\<close>

theorem permission_empty_requester_counterexample:
  "d_user_id (example_documento 3 (Some []) 0) = Some [] \<and>
   example_documento 3 (Some []) 0 \<in> set (documentos (db_path example_store)) \<and>
   example_chunk 5 3 [1, 0] \<in> set (chunks (db_path example_store)) \<and>
   (example_chunk 5 3 [1, 0], example_documento 3 (Some []) 0)
     \<notin> set (fetchall (db_path example_store) (permission_filter (Some []))) \<and>
   search example_store (ascii ''pauta'') 5 (Some []) =
     Inr [example_result 3 1 None True, example_result 1 (3 / 5) None True,
          example_result 2 0 None True]"
  using example_search_empty_requester
  by (simp add: fetchall_iff permission_filter_def example_store_def example_documento_def
        example_chunk_def)




text \<open>
  C5. On a store that \<open>init_db\<close> has just created, \<open>search\<close> raises for every query, every
  \<open>k\<close> and every requester: the \<^verbatim>\<open>SELECT\<close> names the columns \<^verbatim>\<open>d.user_id\<close> and
  \<^verbatim>\<open>d.is_global\<close>, which the table \<^verbatim>\<open>documentos\<close> of \<open>init_db\<close> does not have. (When the
  embedding service raises, that exception comes first.)
\<close>

theorem search_fresh_store_raises:
  "search \<lparr>embedding_service = emb, db_path = init_db new_database\<rparr> q k uid =
     (case emb q of
        Inl e \<Rightarrow> Inl e
      | Inr v \<Rightarrow> Inl (OperationalError ''no such column: d.user_id''))"
  by (simp add: search_def ranked_def prepare_def select_columns_def init_db_def
        new_database_def split: sum.splits)

text \<open>
  C6. \<open>search\<close> validates nothing: the empty query is embedded and answered like any other,
  \<open>k = 0\<close> returns the empty list and \<open>k = -1\<close> returns all ranked rows but the last.
\<close>

theorem search_validates_nothing:
  "search example_store [] 5 None =
     Inr [example_result 3 1 None True, example_result 1 (3 / 5) None True,
          example_result 2 0 None True] \<and>
   search example_store (ascii ''pauta'') 0 None = Inr [] \<and>
   search example_store (ascii ''pauta'') (- 1) None =
     Inr [example_result 3 1 None True, example_result 1 (3 / 5) None True]"
  using example_search_empty_query example_search_0 example_search_negative by simp

section \<open>Properties of the fact deriver\<close>












section \<open>Properties of the chat service\<close>

lemma ranked_global:
  assumes "ranked dbs wh qe k = Inr rs" and "\<And>d. wh d \<Longrightarrow> d_is_global d = Some 1"
  shows "\<forall>r \<in> set rs. is_global r"
proof
  fix r assume "r \<in> set rs"
  with assms(1) obtain row where row: "row \<in> set (fetchall dbs wh)" "row_result qe row = Inr r"
    using ranked_member by blast
  obtain c d where cd: "row = (c, d)" by (cases row)
  from row cd have "wh d" by (simp add: fetchall_iff)
  then have g: "d_is_global d = Some 1" by (rule assms(2))
  from row(2) cd g show "is_global r"
    by (auto simp: row_result_def split: option.splits sum.splits)
qed

lemma permission_filter_None: "permission_filter None d \<Longrightarrow> d_is_global d = Some 1"
  by (simp add: permission_filter_def)

lemma search_None_global:
  assumes "search vs q k None = Inr rs"
  shows "\<forall>r \<in> set rs. is_global r"
proof -
  from assms obtain qe where "ranked (db_path vs) (permission_filter None) qe k = Inr rs"
    by (auto simp: search_def split: sum.splits)
  then show ?thesis by (rule ranked_global) (rule permission_filter_None)
qed

lemma search_with_filter_None_global:
  assumes "search_with_filter vs q fl k None = Inr rs"
  shows "\<forall>r \<in> set rs. is_global r"
proof -
  from assms obtain qe where
    "ranked (db_path vs) (\<lambda>d. permission_filter None d \<and> filter_clauses fl d) qe k = Inr rs"
    by (auto simp: search_with_filter_def split: sum.splits)
  then show ?thesis by (rule ranked_global) (simp add: permission_filter_None)
qed


lemma post_filter_subset: "set (post_filter t k rs) \<subseteq> set rs"
proof -
  have "set (slice_to k (filter P rs)) \<subseteq> set rs" for P
    using set_slice_to [of k "filter P rs"] by auto
  then show ?thesis by (simp add: post_filter_def)
qed

lemma execute_search_None_global:
  assumes "execute_search vs t eq k None = Inr rs"
  shows "\<forall>r \<in> set rs. is_global r"
proof (cases "name t \<in> set [ascii ''pauta'', ascii ''ata'', ascii ''resolucao'', ascii ''portaria'']")
  case True
  with assms have "search_with_filter vs eq [''tipo'' \<mapsto> name t] k None = Inr rs"
    by (simp add: execute_search_def del: ascii_simps)
  then show ?thesis by (rule search_with_filter_None_global)
next
  case False
  with assms obtain found where f: "search vs eq k None = Inr found"
    and rs: "rs = post_filter t k found"
    by (auto simp: execute_search_def split: sum.splits simp del: ascii_simps)
  from search_None_global [OF f] post_filter_subset [of t k found] rs
  show ?thesis by blast
qed

lemma run_None_global: "\<forall>r \<in> set (ar_chunks (run vs q k None)). is_global r"
proof (cases "pick_tool q")
  case None
  then show ?thesis by (simp add: run_def)
next
  case (Some t)
  show ?thesis
  proof (cases "execute_search vs t (enhance_query t q) k None")
    case (Inl e)
    with Some show ?thesis by (simp add: run_def)
  next
    case (Inr rs)
    with Some execute_search_None_global [OF Inr] show ?thesis by (simp add: run_def)
  qed
qed

lemma focal_agent_search_global:
  assumes "focal_agent_search cs sq = Inr (chs, tn)"
  shows "\<forall>c \<in> set chs. is_global c"
proof (cases "vector_store cs")
  case None
  with assms show ?thesis by (simp add: focal_agent_search_def split: option.splits)
next
  case (Some vs)
  show ?thesis
  proof (cases "agent cs")
    case None
    with Some assms have "search vs sq 5 None = Inr chs"
      by (simp add: focal_agent_search_def split: sum.splits)
    then show ?thesis by (rule search_None_global)
  next
    case (Some ag)
    with \<open>vector_store cs = Some vs\<close> assms have "chs = ar_chunks (run ag sq 5 None)"
      by (simp add: focal_agent_search_def Let_def)
    then show ?thesis using run_None_global by simp
  qed
qed

lemma generate_forget_user:
  "response_of (generate cs m hist u1 rl en chs tn facts
      \<lparr>md_user_id = u1, md_role = a, md_cache_hit = b, md_agent_tool = c, md_num_chunks = d,
       md_num_facts = e, md_clarification = f, md_error = g, md_enrichment = h,
       md_derived_facts = i, md_chunks = j\<rparr>) =
   response_of (generate cs m hist u2 rl en chs tn facts
      \<lparr>md_user_id = u2, md_role = a, md_cache_hit = b, md_agent_tool = c, md_num_chunks = d,
       md_num_facts = e, md_clarification = f, md_error = g, md_enrichment = h,
       md_derived_facts = i, md_chunks = j\<rparr>)"
  by (simp add: generate_def response_of_def forget_user_def Let_def
        split: option.splits sum.splits prod.splits)

lemma check_cache_empty:
  "cache cs = None \<or> cache cs = Some init_tables \<Longrightarrow> check_cache cs u m = None"
  by (auto simp: check_cache_def init_tables_def usable_def get_user_answer_def
        get_global_answer_def)

lemma answer_forget_user:
  assumes "check_cache cs u1 m = None" "check_cache cs u2 m = None"
  shows "response_of (answer cs m h u1 rl) = response_of (answer cs m h u2 rl)"
  unfolding answer_def assms Let_def
  by (simp add: generate_forget_user split: option.splits sum.splits prod.splits)
     (simp add: response_of_def forget_user_def)

lemma str_in_iff: "str_in t s \<longleftrightarrow> (\<exists>ps ss. s = ps @ t @ ss)"
proof (induction s)
  case Nil
  show ?case by auto
next
  case (Cons c cs)
  show ?case
  proof
    assume "str_in t (c # cs)"
    then consider "prefix t (c # cs)" | "str_in t cs" by auto
    then show "\<exists>ps ss. c # cs = ps @ t @ ss"
    proof cases
      case 1
      then obtain ss where "c # cs = t @ ss" by (auto elim: prefixE)
      then have "c # cs = [] @ t @ ss" by simp
      then show ?thesis by blast
    next
      case 2
      with Cons.IH obtain ps ss where "cs = ps @ t @ ss" by blast
      then have "c # cs = (c # ps) @ t @ ss" by simp
      then show ?thesis by blast
    qed
  next
    assume "\<exists>ps ss. c # cs = ps @ t @ ss"
    then obtain ps ss where e: "c # cs = ps @ t @ ss" by blast
    show "str_in t (c # cs)"
    proof (cases ps)
      case Nil
      with e have "prefix t (c # cs)" by (simp add: prefix_def)
      then show ?thesis by simp
    next
      case (Cons p ps')
      with e have "cs = ps' @ t @ ss" by simp
      with Cons.IH have "str_in t cs" by blast
      then show ?thesis by simp
    qed
  qed
qed

lemma str_in_map: "str_in t s \<Longrightarrow> str_in (map f t) (map f s)"
  unfolding str_in_iff by (metis map_append)

lemma signals_lower: "\<forall>sg \<in> set signals. lower sg = sg"
  by (simp add: signals_def lower_def lower_cp_def)

lemma any_in_signals_negative:
  assumes "any_in signals a"
  shows "is_negative a"
proof -
  from assms obtain sg where sg: "sg \<in> set signals" "str_in sg a"
    by (auto simp: any_in_def list_ex_iff)
  then have "str_in (lower sg) (lower a)" unfolding lower_def by (intro str_in_map)
  with sg signals_lower have "str_in sg (lower a)" by simp
  with sg show ?thesis by (auto simp: is_negative_def any_in_def list_ex_iff)
qed

lemma cache_storage_negative:
  "is_negative t \<or> t = [] \<Longrightarrow> cache_storage cs uid m t = cs"
  by (auto simp: cache_storage_def split: option.splits)

lemma cache_log_audit: "cache (log_audit cs a b c d md) = cache cs"
  by (simp add: log_audit_def split: option.splits)

lemma generate_Inr:
  assumes "generate cs m hist uid rl en chs tn facts md = Inr (resp, cs')"
  shows "md_chunks (response_metadata resp) = Some chs \<and>
         cache cs' = cache (cache_storage cs uid m (msg_content (message resp)))"
  using assms
  by (auto simp: generate_def Let_def cache_log_audit split: option.splits sum.splits prod.splits)

lemma answer_Inr:
  assumes "answer cs m h uid rl = Inr (resp, cs')"
  shows "(cache cs' = cache cs \<and> md_chunks (response_metadata resp) = None) \<or>
         (\<exists>hist en sq chs tn facts md.
            focal_agent_search cs sq = Inr (chs, tn) \<and>
            generate cs m hist uid rl en chs tn facts md = Inr (resp, cs'))"
proof (cases "check_cache cs uid m")
  case (Some hit)
  with assms show ?thesis
    by (auto simp: answer_def Let_def cache_log_audit split: prod.splits)
next
  case None
  show ?thesis
  proof (cases "semantic_rewriting cs m")
    case (Inl e)
    with assms None show ?thesis by (simp add: answer_def Let_def)
  next
    case (Inr p)
    obtain en sq where p: "p = (en, sq)" by (cases p)
    show ?thesis
    proof (cases "focal_agent_search cs sq")
      case (Inl e)
      with assms None Inr p show ?thesis by (simp add: answer_def Let_def)
    next
      case fa: (Inr f)
      obtain chs tn where f: "f = (chs, tn)" by (cases f)
      from assms None Inr p fa f
      have "(cache cs' = cache cs \<and> md_chunks (response_metadata resp) = None) \<or>
            (\<exists>hist facts md. generate cs m hist uid rl en chs tn facts md = Inr (resp, cs'))"
        by (auto simp: answer_def Let_def cache_log_audit
              split: option.splits sum.splits if_splits)
      with fa f show ?thesis by blast
    qed
  qed
qed

lemma example_pick: "map_option name (pick_tool (ascii ''Qual a ata?'')) = Some (ascii ''ata'')"
  by (simp add: pick_tool_def TOOLS_def any_in_def lower_def lower_cp_def)

lemma example_run:
  "run example_store (ascii ''Qual a ata?'') 5 None =
     \<lparr>ar_tool = Some (ascii ''ata''),
      ar_chunks = [example_result 3 1 None True, example_result 1 (3 / 5) None True,
                   example_result 2 0 None True],
      ar_enhanced_query = ascii ''Qual a ata?''\<rparr>"
  by (simp add: run_def pick_tool_def TOOLS_def any_in_def lower_def lower_cp_def
        enhance_query_def execute_search_def search_with_filter_def filter_clauses_def
        example_store_def migrated_columns_def example_documento_def
        example_chunk_def example_result_def init_db_def new_database_def ranked_def
        prepare_def select_columns_def fetchall_def permission_filter_def row_result_def
        cosine_def dot_def linalg_norm_def sort_reverse_def slice_to_def)

lemma example_focal:
  "focal_agent_search (example_service p) (ascii ''Qual a ata?'') =
     Inr ([example_result 3 1 None True, example_result 1 (3 / 5) None True,
           example_result 2 0 None True], Some (ascii ''ata''))"
  by (simp add: focal_agent_search_def example_service_def example_run del: ascii_simps)

lemma example_derive:
  "derive_counts (ascii ''Qual a ata?'') chs = []"
  by (simp add: derive_counts_def any_in_def voting_terms_def participant_terms_def lower_def lower_cp_def)

lemma example_answer:
  "\<exists>resp cs'. answer (example_service p) (ascii ''Qual a ata?'') None uid rl = Inr (resp, cs') \<and>
     msg_content (message resp) = concat p \<and>
     md_chunks (response_metadata resp) =
       Some [example_result 3 1 None True, example_result 1 (3 / 5) None True,
             example_result 2 0 None True]"
proof -
  have c: "check_cache (example_service p) uid (ascii ''Qual a ata?'') = None"
    by (rule check_cache_empty) (simp add: example_service_def)
  have s: "semantic_rewriting (example_service p) (ascii ''Qual a ata?'') = Inr (None, ascii ''Qual a ata?'')"
    by (simp add: semantic_rewriting_def example_service_def)
  show ?thesis
    by (simp add: answer_def c [unfolded example_service_def] s [unfolded example_service_def]
          example_focal [unfolded example_service_def] example_derive generate_def
          example_service_def Let_def cache_storage_def log_audit_def del: ascii_simps)
qed

text \<open>
  C9. \<open>answer\<close> calls the focal agent (or, without one, the plain search) with no user id,
  so the search runs for the requester \<^verbatim>\<open>None\<close>: every chunk that this step retrieves, and
  every chunk in the metadata of a response, belongs to a global document, whoever asks.
  With empty caches (or none) two calls that differ only in the user id give the same
  response (chunks, sources, text and metadata) up to the user id recorded in the metadata.
\<close>

theorem answer_retrieval_ignores_user:
  "(focal_agent_search cs sq = Inr (chs, tn) \<longrightarrow> (\<forall>c \<in> set chs. is_global c)) \<and>
   (cache cs = None \<or> cache cs = Some init_tables \<longrightarrow>
      response_of (answer cs m h u1 rl) = response_of (answer cs m h u2 rl)) \<and>
   (answer cs m h u1 rl = Inr (resp, cs') \<longrightarrow>
      (\<forall>found. md_chunks (response_metadata resp) = Some found \<longrightarrow>
               (\<forall>c \<in> set found. is_global c)))"
proof (intro conjI impI allI)
  assume "focal_agent_search cs sq = Inr (chs, tn)"
  then show "\<forall>c \<in> set chs. is_global c" by (rule focal_agent_search_global)
next
  assume "cache cs = None \<or> cache cs = Some init_tables"
  then have "check_cache cs u1 m = None" "check_cache cs u2 m = None"
    by (rule check_cache_empty)+
  then show "response_of (answer cs m h u1 rl) = response_of (answer cs m h u2 rl)"
    by (rule answer_forget_user)
next
  fix found
  assume a: "answer cs m h u1 rl = Inr (resp, cs')"
    and f: "md_chunks (response_metadata resp) = Some found"
  from answer_Inr [OF a] f obtain hist en sq' chs' tn' facts md where
    "focal_agent_search cs sq' = Inr (chs', tn')"
    "generate cs m hist u1 rl en chs' tn' facts md = Inr (resp, cs')"
    by auto
  with f generate_Inr have "found = chs'" "\<forall>c \<in> set chs'. is_global c"
    by (fastforce dest: focal_agent_search_global)+
  then show "\<forall>c \<in> set found. is_global c" by simp
qed

theorem answer_retrieval_ignores_user_witness:
  "focal_agent_search (example_service [ascii ''ok'']) (ascii ''Qual a ata?'') =
     Inr ([example_result 3 1 None True, example_result 1 (3 / 5) None True,
           example_result 2 0 None True], Some (ascii ''ata'')) \<and>
   list_all is_global [example_result 3 1 None True, example_result 1 (3 / 5) None True,
                       example_result 2 0 None True] \<and>
   cache (example_service [ascii ''ok'']) = Some init_tables \<and>
   response_of (answer (example_service [ascii ''ok'']) (ascii ''Qual a ata?'') None
                  (ascii ''alice'') (ascii ''publico'')) =
   response_of (answer (example_service [ascii ''ok'']) (ascii ''Qual a ata?'') None
                  (ascii ''bob'') (ascii ''publico'')) \<and>
   (\<exists>resp cs'.
      answer (example_service [ascii ''ok'']) (ascii ''Qual a ata?'') None (ascii ''alice'')
        (ascii ''publico'') = Inr (resp, cs') \<and>
      md_chunks (response_metadata resp) =
        Some [example_result 3 1 None True, example_result 1 (3 / 5) None True,
              example_result 2 0 None True])"
proof -
  note t = answer_retrieval_ignores_user [of "example_service [ascii ''ok'']"
      "ascii ''Qual a ata?''" _ _ "ascii ''Qual a ata?''" None "ascii ''alice''"
      "ascii ''publico''" "ascii ''bob''"]
  have c: "cache (example_service [ascii ''ok'']) = Some init_tables"
    by (simp add: example_service_def)
  from t example_focal [of "[ascii ''ok'']"]
  have g: "list_all is_global [example_result 3 1 None True,
      example_result 1 (3 / 5) None True, example_result 2 0 None True]"
    by (simp add: list_all_iff del: ascii_simps)
  from t c have e: "response_of (answer (example_service [ascii ''ok''])
        (ascii ''Qual a ata?'') None (ascii ''alice'') (ascii ''publico'')) =
      response_of (answer (example_service [ascii ''ok'']) (ascii ''Qual a ata?'') None
        (ascii ''bob'') (ascii ''publico''))"
    by blast
  from example_answer [of "[ascii ''ok'']" "ascii ''alice''" "ascii ''publico''"]
    example_focal [of "[ascii ''ok'']"] g c e
  show ?thesis by blast
qed

text \<open>
  C10. \<open>answer\<close> never stores a negative answer: when the response text is empty or is
  negative for \<open>is_negative\<close> (in particular when it contains one of its signals), the
  storage step calls neither \<open>set_user_answer\<close> nor \<open>set_global_answer\<close> and returns the
  service as it was, and a call of \<open>answer\<close> that returns such a text leaves both cache
  tables unchanged.
\<close>

theorem negative_answers_not_cached:
  "(is_negative t \<or> any_in signals t \<or> t = [] \<longrightarrow> cache_storage cs uid m t = cs) \<and>
   (answer cs m h uid rl = Inr (resp, cs') \<and>
    (is_negative (msg_content (message resp)) \<or> any_in signals (msg_content (message resp))
       \<or> msg_content (message resp) = [])
      \<longrightarrow> cache cs' = cache cs)"
proof (intro conjI impI)
  assume "is_negative t \<or> any_in signals t \<or> t = []"
  then have "is_negative t \<or> t = []" using any_in_signals_negative by blast
  then show "cache_storage cs uid m t = cs" by (rule cache_storage_negative)
next
  assume a: "answer cs m h uid rl = Inr (resp, cs') \<and>
    (is_negative (msg_content (message resp)) \<or> any_in signals (msg_content (message resp))
       \<or> msg_content (message resp) = [])"
  then have n: "is_negative (msg_content (message resp)) \<or> msg_content (message resp) = []"
    using any_in_signals_negative by blast
  from a have a1: "answer cs m h uid rl = Inr (resp, cs')" by simp
  from answer_Inr [OF a1] consider "cache cs' = cache cs"
    | hist en chs tn facts md where
      "generate cs m hist uid rl en chs tn facts md = Inr (resp, cs')"
    by blast
  then show "cache cs' = cache cs"
  proof cases
    case 1
    then show ?thesis .
  next
    case 2
    then have "cache cs' = cache (cache_storage cs uid m (msg_content (message resp)))"
      using generate_Inr by blast
    with cache_storage_negative [OF n] show ?thesis by simp
  qed
qed

theorem negative_answers_not_cached_witness:
  "is_negative (ascii ''N'' @ [227] @ ascii ''o encontrei nada.'') \<and>
   cache_storage (example_service []) (ascii ''alice'') (ascii ''Qual a ata?'')
     (ascii ''N'' @ [227] @ ascii ''o encontrei nada.'') = example_service [] \<and>
   (\<exists>resp cs'.
      answer (example_service [ascii ''N'' @ [227] @ ascii ''o encontrei nada.''])
        (ascii ''Qual a ata?'') None (ascii ''alice'') (ascii ''publico'') = Inr (resp, cs') \<and>
      msg_content (message resp) = ascii ''N'' @ [227] @ ascii ''o encontrei nada.'' \<and>
      cache cs' = Some init_tables)"
proof -
  have n: "is_negative (ascii ''N'' @ [227] @ ascii ''o encontrei nada.'')"
    by (simp add: is_negative_def any_in_def signals_def lower_def lower_cp_def)
  have s: "cache_storage (example_service []) (ascii ''alice'') (ascii ''Qual a ata?'')
     (ascii ''N'' @ [227] @ ascii ''o encontrei nada.'') = example_service []"
    using negative_answers_not_cached [of "ascii ''N'' @ [227] @ ascii ''o encontrei nada.''"
        "example_service []" "ascii ''alice''" "ascii ''Qual a ata?''"] n
    by blast
  from example_answer [of "[ascii ''N'' @ [227] @ ascii ''o encontrei nada.'']"
      "ascii ''alice''" "ascii ''publico''"]
  obtain resp cs' where a: "answer (example_service [ascii ''N'' @ [227]
        @ ascii ''o encontrei nada.'']) (ascii ''Qual a ata?'') None (ascii ''alice'')
        (ascii ''publico'') = Inr (resp, cs')"
    and m: "msg_content (message resp) = ascii ''N'' @ [227] @ ascii ''o encontrei nada.''"
    by auto
  from negative_answers_not_cached [of _
      "example_service [ascii ''N'' @ [227] @ ascii ''o encontrei nada.'']" "ascii ''alice''"
      "ascii ''Qual a ata?''" None "ascii ''publico''" resp cs'] a m n
  have "cache cs' = cache (example_service [ascii ''N'' @ [227] @ ascii ''o encontrei nada.''])"
    by (simp del: ascii_simps)
  then have "cache cs' = Some init_tables" by (simp add: example_service_def)
  with n s a m show ?thesis by blast
qed

end
